theory Spec2Isabelle
  imports Complex_Main "HOL-Library.AList" "HOL-Library.Multiset" "HOL-Library.Sublist"
begin

section \<open>Data model (types/image.ts, smartcrop.d.ts)\<close>

text \<open>
  JavaScript numbers are written as mathematical reals, without the rounding, the
  infinities and the NaN of binary64; division is HOL's total division, whose quotient by
  zero is 0. No theorem of this development rests on the value of an arithmetic expression:
  a number is compared, stored or handed on (the crop rectangle to the rasterizer, the
  aspect to a framing), and the one theorem on arithmetic, the idempotence of clamping,
  uses only the order of the numbers. Opaque browser objects (\<open>File\<close>, \<open>ImageBitmap\<close>,
  \<open>Blob\<close>) are handles.
\<close>

datatype File = File nat
datatype ImageBitmap = ImageBitmap nat

text \<open>\<open>interface CropState\<close>; the optional fields are options.\<close>

record CropState =
  centerX :: real
  centerY :: real
  scale :: real
  aspect :: real
  rotation :: "real option"
  sourceHash :: "string option"

text \<open>\<open>interface SmartCropResult\<close> (fields \<open>x, y, width, height, score\<close>).\<close>

record SmartCropResult =
  res_x :: real
  res_y :: real
  res_width :: real
  res_height :: real
  score :: real

text \<open>\<open>interface Crop\<close> of the smartcrop module; \<open>score\<close> is read through a cast and may be absent.\<close>

record Crop =
  top_x :: real
  top_y :: real
  top_width :: real
  top_height :: real
  top_score :: "real option"



record ImageFile =
  id' :: string
  file' :: File
  name :: string
  originalWidth :: real
  originalHeight :: real
  bitmap :: "ImageBitmap option"
  thumbnail :: string
  cropState :: CropState
  smartCropResult :: "SmartCropResult option"
  isProcessing :: bool
  isSmartCropPending :: bool

datatype Format = jpeg | png | webp

record ExportSettings =
  format :: Format
  quality :: real
  targetWidth :: real
  targetHeight :: real
  aspectLocked :: bool
  prefix' :: string
  suffix' :: string
  startIndex :: real

record AppSettings =
  enableCrop :: bool
  enableSmartCrop :: bool
  showRuleOfThirds :: bool
  exportSettings :: ExportSettings

definition DEFAULT_CROP_STATE :: CropState where
  "DEFAULT_CROP_STATE =
     \<lparr>centerX = 1 / 2, centerY = 1 / 2, scale = 1, aspect = 1, rotation = None, sourceHash = None\<rparr>"

definition DEFAULT_EXPORT_SETTINGS :: ExportSettings where
  "DEFAULT_EXPORT_SETTINGS =
     \<lparr>format = jpeg, quality = 90, targetWidth = 1200, targetHeight = 800, aspectLocked = True,
      prefix' = ''image-'', suffix' = '''', startIndex = 1\<rparr>"

definition DEFAULT_APP_SETTINGS :: AppSettings where
  "DEFAULT_APP_SETTINGS =
     \<lparr>enableCrop = True, enableSmartCrop = True, showRuleOfThirds = True,
      exportSettings = DEFAULT_EXPORT_SETTINGS\<rparr>"

section \<open>Crop geometry (lib/cropMath.ts)\<close>




definition smartCropToCropState :: "SmartCropResult \<Rightarrow> real \<Rightarrow> real \<Rightarrow> real \<Rightarrow> CropState" where
  "smartCropToCropState smartCrop imageWidth imageHeight targetAspect =
     (let cX = (res_x smartCrop + res_width smartCrop / 2) / imageWidth;
          cY = (res_y smartCrop + res_height smartCrop / 2) / imageHeight;
          imageAspect = imageWidth / imageHeight;
          (bw, bh) = (if targetAspect \<ge> imageAspect
                      then (imageWidth, imageWidth / targetAspect)
                      else (imageHeight * targetAspect, imageHeight));
          scaleX = bw / res_width smartCrop;
          scaleY = bh / res_height smartCrop;
          sc = min scaleX scaleY;
          sc' = max 1 (min sc 5)
      in \<lparr>centerX = cX, centerY = cY, scale = sc', aspect = targetAspect,
          rotation = None, sourceHash = None\<rparr>)"

text \<open>\<open>clampCropCenter\<close> returns the pair \<open>{centerX, centerY}\<close>.\<close>

definition clampCropCenter :: "real \<Rightarrow> real \<Rightarrow> real \<Rightarrow> real \<Rightarrow> real \<Rightarrow> real \<Rightarrow> real \<times> real" where
  "clampCropCenter cX cY cropW cropH imageWidth imageHeight =
     (let minCenterX = (cropW / 2) / imageWidth;
          maxCenterX = 1 - minCenterX;
          minCenterY = (cropH / 2) / imageHeight;
          maxCenterY = 1 - minCenterY
      in (max minCenterX (min maxCenterX cX), max minCenterY (min maxCenterY cY)))"

definition applyFramingToImage :: "CropState \<Rightarrow> real \<Rightarrow> real \<Rightarrow> real \<Rightarrow> CropState" where
  "applyFramingToImage sourceCropState targetImageWidth targetImageHeight targetAspect =
     \<lparr>centerX = centerX sourceCropState, centerY = centerY sourceCropState,
      scale = scale sourceCropState, aspect = targetAspect, rotation = None, sourceHash = None\<rparr>"

section \<open>Saliency cache and batch analyzer (lib/smartCropWorker.ts)\<close>

text \<open>
  The module-level \<open>cropCache\<close> is a \<open>Map\<close> from key strings to \<open>result | null\<close>. The
  analyzer state carries it together with \<open>detectorCalls\<close>, a counter of the invocations of
  \<open>smartcrop.crop\<close> made so far; the counter is instrumentation, so that "the detector is not
  invoked again" can be stated.
\<close>

record Analyzer =
  cropCache :: "string \<rightharpoonup> SmartCropResult option"
  detectorCalls :: nat

text \<open>
  The conversion of a number inside a template literal is the parameter \<open>str\<close>. The
  detector \<open>smartcrop.crop\<close> is the parameter \<open>detect\<close>: \<open>None\<close> is a rejected promise (or any
  other exception raised inside the \<open>try\<close> block).
\<close>

definition getCacheKey :: "(real \<Rightarrow> string) \<Rightarrow> string \<Rightarrow> real \<Rightarrow> real \<Rightarrow> string" where
  "getCacheKey str imageId tw th = imageId @ ''_'' @ str tw @ ''_'' @ str th"

text \<open>
  \<open>analyzeImage\<close> is an \<open>async\<close> function with one suspension point, the \<open>await\<close> of the
  detector. \<open>analyzeImage_start\<close> is the part that runs synchronously at the call (the cache
  lookup, and the invocation of the detector on a miss), \<open>analyzeImage_resume\<close> the part that
  runs when the detector has settled (the cache write and the return value).
\<close>

datatype Analysis = Hit "SmartCropResult option" | Detected Crop | Failed

definition analyzeImage_start ::
  "(ImageBitmap \<Rightarrow> real \<Rightarrow> real \<Rightarrow> Crop option) \<Rightarrow> (real \<Rightarrow> string) \<Rightarrow> Analyzer \<Rightarrow>
   ImageBitmap \<Rightarrow> real \<Rightarrow> real \<Rightarrow> string \<Rightarrow> Analysis \<times> Analyzer" where
  "analyzeImage_start detect str an imageElement tw th imageId =
     (case cropCache an (getCacheKey str imageId tw th) of
        Some v \<Rightarrow> (Hit v, an)
      | None \<Rightarrow>
          (case detect imageElement tw th of
             Some topCrop \<Rightarrow> (Detected topCrop, an\<lparr>detectorCalls := detectorCalls an + 1\<rparr>)
           | None \<Rightarrow> (Failed, an\<lparr>detectorCalls := detectorCalls an + 1\<rparr>)))"

definition analyzeImage_resume ::
  "(real \<Rightarrow> string) \<Rightarrow> real \<Rightarrow> real \<Rightarrow> string \<Rightarrow> Analysis \<Rightarrow> Analyzer \<Rightarrow>
   SmartCropResult option \<times> Analyzer" where
  "analyzeImage_resume str tw th imageId a an =
     (case a of
        Hit v \<Rightarrow> (v, an)
      | Detected topCrop \<Rightarrow>
          (let cropResult = \<lparr>res_x = top_x topCrop, res_y = top_y topCrop,
                             res_width = top_width topCrop, res_height = top_height topCrop,
                             score = (case top_score topCrop of Some sc \<Rightarrow> sc | None \<Rightarrow> 1)\<rparr>
           in (Some cropResult,
               an\<lparr>cropCache := (cropCache an)(getCacheKey str imageId tw th \<mapsto> Some cropResult)\<rparr>))
      | Failed \<Rightarrow> (None, an))"

text \<open>A call of \<open>analyzeImage\<close> that nothing interleaves with.\<close>

definition analyzeImage ::
  "(ImageBitmap \<Rightarrow> real \<Rightarrow> real \<Rightarrow> Crop option) \<Rightarrow> (real \<Rightarrow> string) \<Rightarrow> Analyzer \<Rightarrow>
   ImageBitmap \<Rightarrow> real \<Rightarrow> real \<Rightarrow> string \<Rightarrow> SmartCropResult option \<times> Analyzer" where
  "analyzeImage detect str an imageElement tw th imageId =
     (let (a, an1) = analyzeImage_start detect str an imageElement tw th imageId
      in analyzeImage_resume str tw th imageId a an1)"

text \<open>
  \<open>clearSmartCropCache(imageId?)\<close>: the test \<open>if (imageId)\<close> is false for an absent argument
  and for the empty string.
\<close>

definition clearSmartCropCache :: "string option \<Rightarrow> Analyzer \<Rightarrow> Analyzer" where
  "clearSmartCropCache imageId an =
     (case imageId of
        Some i \<Rightarrow>
          (if i \<noteq> []
           then an\<lparr>cropCache := (\<lambda>key. if prefix i key then None else cropCache an key)\<rparr>
           else an\<lparr>cropCache := Map.empty\<rparr>)
      | None \<Rightarrow> an\<lparr>cropCache := Map.empty\<rparr>)"

record Job =
  imageId :: string
  job_bitmap :: ImageBitmap
  job_targetWidth :: real
  job_targetHeight :: real

text \<open>
  The local variables of \<open>batchAnalyze\<close>: the \<open>results\<close> map, the counter \<open>completed\<close>, and
  the calls of \<open>onProgress\<close> made so far, in order.
\<close>

record BatchState =
  results :: "string \<rightharpoonup> SmartCropResult option"
  completed :: nat
  progress :: "(nat \<times> nat) list"
  analyzer :: Analyzer

text \<open>\<open>Array.prototype.slice(start, end)\<close> on integer arguments, negative ones counting from the end.\<close>

definition slice :: "'a list \<Rightarrow> int \<Rightarrow> int \<Rightarrow> 'a list" where
  "slice xs start end' =
     (let len = int (length xs);
          k = (if start < 0 then max (len + start) 0 else min start len);
          final = (if end' < 0 then max (len + end') 0 else min end' len)
      in take (nat (final - k)) (drop (nat k) xs))"

text \<open>
  One round of \<open>Promise.all(batch.map(async job => ...))\<close>. Every callback runs to its
  suspension point when \<open>map\<close> calls it, in submission order (\<open>startJobs\<close>); the continuations
  run one at a time as the detector calls settle, in an order that depends on their latency.
  That order is the parameter \<open>order\<close>, a rearrangement of the started jobs.
\<close>

fun startJobs ::
  "(ImageBitmap \<Rightarrow> real \<Rightarrow> real \<Rightarrow> Crop option) \<Rightarrow> (real \<Rightarrow> string) \<Rightarrow> Analyzer \<Rightarrow> Job list \<Rightarrow>
   (Job \<times> Analysis) list \<times> Analyzer" where
  "startJobs detect str an [] = ([], an)"
| "startJobs detect str an (job # rest) =
     (let (a, an1) = analyzeImage_start detect str an (job_bitmap job)
                       (job_targetWidth job) (job_targetHeight job) (imageId job);
          (started, an2) = startJobs detect str an1 rest
      in ((job, a) # started, an2))"

definition finishJob :: "(real \<Rightarrow> string) \<Rightarrow> nat \<Rightarrow> Job \<times> Analysis \<Rightarrow> BatchState \<Rightarrow> BatchState" where
  "finishJob str len ja bs =
     (let (job, a) = ja;
          (result, an1) = analyzeImage_resume str (job_targetWidth job) (job_targetHeight job)
                            (imageId job) a (analyzer bs);
          c = completed bs + 1
      in bs\<lparr>results := (results bs)(imageId job \<mapsto> result), completed := c,
            progress := progress bs @ [(c, len)], analyzer := an1\<rparr>)"

definition runBatch ::
  "(ImageBitmap \<Rightarrow> real \<Rightarrow> real \<Rightarrow> Crop option) \<Rightarrow> ((Job \<times> Analysis) list \<Rightarrow> (Job \<times> Analysis) list) \<Rightarrow>
   (real \<Rightarrow> string) \<Rightarrow> nat \<Rightarrow> Job list \<Rightarrow> BatchState \<Rightarrow> BatchState" where
  "runBatch detect order str len batch bs =
     (let (started, an1) = startJobs detect str (analyzer bs) batch
      in fold (finishJob str len) (order started) (bs\<lparr>analyzer := an1\<rparr>))"

text \<open>
  The loop \<open>for (let i = 0; i < jobs.length; i += concurrency)\<close>. It need not terminate, so
  its result is an option: \<open>None\<close> is a loop that runs forever.
\<close>

partial_function (option) batchLoop ::
  "(ImageBitmap \<Rightarrow> real \<Rightarrow> real \<Rightarrow> Crop option) \<Rightarrow> ((Job \<times> Analysis) list \<Rightarrow> (Job \<times> Analysis) list) \<Rightarrow>
   (real \<Rightarrow> string) \<Rightarrow> Job list \<Rightarrow> int \<Rightarrow> int \<Rightarrow> BatchState \<Rightarrow> BatchState option" where
  "batchLoop detect order str jobs concurrency i bs =
     (if i < int (length jobs)
      then batchLoop detect order str jobs concurrency (i + concurrency)
             (runBatch detect order str (length jobs) (slice jobs i (i + concurrency)) bs)
      else Some bs)"

text \<open>
  \<open>batchAnalyze\<close> resolves to the \<open>results\<close> map; the model returns with it the calls of
  \<open>onProgress\<close> and the analyzer state it leaves behind.
\<close>

definition batchAnalyze ::
  "(ImageBitmap \<Rightarrow> real \<Rightarrow> real \<Rightarrow> Crop option) \<Rightarrow> ((Job \<times> Analysis) list \<Rightarrow> (Job \<times> Analysis) list) \<Rightarrow>
   (real \<Rightarrow> string) \<Rightarrow> Analyzer \<Rightarrow> Job list \<Rightarrow> int \<Rightarrow>
   ((string \<rightharpoonup> SmartCropResult option) \<times> (nat \<times> nat) list \<times> Analyzer) option" where
  "batchAnalyze detect order str an jobs concurrency =
     map_option (\<lambda>bs. (results bs, progress bs, analyzer bs))
       (batchLoop detect order str jobs concurrency 0
          \<lparr>results = Map.empty, completed = 0, progress = [], analyzer = an\<rparr>)"

section \<open>The collection state machine (context/AppContext.tsx)\<close>

record AppState =
  images :: "ImageFile list"
  settings :: AppSettings
  appIsProcessing :: bool
  selectedImageId :: "string option"
  editingImageId :: "string option"

text \<open>
  \<open>Partial<T>\<close>: every field may be absent. Field \<open>f\<close> of \<open>T\<close> is \<open>p_f\<close> here; the spread
  \<open>{...t, ...p}\<close> keeps the field of \<open>t\<close> where \<open>p\<close> has none.
\<close>

record PartialExportSettings =
  p_format :: "Format option"
  p_quality :: "real option"
  p_targetWidth :: "real option"
  p_targetHeight :: "real option"
  p_aspectLocked :: "bool option"
  p_prefix :: "string option"
  p_suffix :: "string option"
  p_startIndex :: "real option"

record PartialAppSettings =
  p_enableCrop :: "bool option"
  p_enableSmartCrop :: "bool option"
  p_showRuleOfThirds :: "bool option"
  p_exportSettings :: "ExportSettings option"

record PartialAppState =
  p_images :: "ImageFile list option"
  p_settings :: "AppSettings option"
  p_isProcessing :: "bool option"
  p_selectedImageId :: "string option option"
  p_editingImageId :: "string option option"

definition orElse :: "'a option \<Rightarrow> 'a \<Rightarrow> 'a" where
  "orElse p v = (case p of Some w \<Rightarrow> w | None \<Rightarrow> v)"

definition spreadExportSettings :: "ExportSettings \<Rightarrow> PartialExportSettings \<Rightarrow> ExportSettings" where
  "spreadExportSettings e p =
     \<lparr>format = orElse (p_format p) (format e), quality = orElse (p_quality p) (quality e),
      targetWidth = orElse (p_targetWidth p) (targetWidth e),
      targetHeight = orElse (p_targetHeight p) (targetHeight e),
      aspectLocked = orElse (p_aspectLocked p) (aspectLocked e),
      prefix' = orElse (p_prefix p) (prefix' e), suffix' = orElse (p_suffix p) (suffix' e),
      startIndex = orElse (p_startIndex p) (startIndex e)\<rparr>"

definition spreadAppSettings :: "AppSettings \<Rightarrow> PartialAppSettings \<Rightarrow> AppSettings" where
  "spreadAppSettings a p =
     \<lparr>enableCrop = orElse (p_enableCrop p) (enableCrop a),
      enableSmartCrop = orElse (p_enableSmartCrop p) (enableSmartCrop a),
      showRuleOfThirds = orElse (p_showRuleOfThirds p) (showRuleOfThirds a),
      exportSettings = orElse (p_exportSettings p) (exportSettings a)\<rparr>"

definition spreadAppState :: "AppState \<Rightarrow> PartialAppState \<Rightarrow> AppState" where
  "spreadAppState s p =
     \<lparr>images = orElse (p_images p) (images s), settings = orElse (p_settings p) (settings s),
      appIsProcessing = orElse (p_isProcessing p) (appIsProcessing s),
      selectedImageId = orElse (p_selectedImageId p) (selectedImageId s),
      editingImageId = orElse (p_editingImageId p) (editingImageId s)\<rparr>"

datatype AppAction =
    ADD_IMAGES "ImageFile list"
  | REMOVE_IMAGE string
  | CLEAR_IMAGES
  | UPDATE_CROP_STATE string CropState
  | UPDATE_ALL_CROP_STATES real
  | APPLY_CROP_TO_ALL CropState
  | UPDATE_SETTINGS PartialAppSettings
  | UPDATE_EXPORT_SETTINGS PartialExportSettings
  | SET_PROCESSING bool
  | SET_SELECTED_IMAGE "string option"
  | SET_EDITING_IMAGE "string option"
  | SET_IMAGE_SMART_CROP string "SmartCropResult option"
  | SET_IMAGE_PROCESSING string bool
  | SET_IMAGE_SMART_CROP_PENDING string bool
  | LOAD_STATE PartialAppState

definition initialState :: AppState where
  "initialState =
     \<lparr>images = [], settings = DEFAULT_APP_SETTINGS, appIsProcessing = False,
      selectedImageId = None, editingImageId = None\<rparr>"

fun appReducer :: "AppState \<Rightarrow> AppAction \<Rightarrow> AppState" where
  "appReducer state (ADD_IMAGES payload) = state\<lparr>images := images state @ payload\<rparr>"
| "appReducer state (REMOVE_IMAGE payload) =
     state\<lparr>images := filter (\<lambda>img. id' img \<noteq> payload) (images state)\<rparr>"
| "appReducer state CLEAR_IMAGES =
     state\<lparr>images := [], selectedImageId := None, editingImageId := None\<rparr>"
| "appReducer state (UPDATE_CROP_STATE i cs) =
     state\<lparr>images := map (\<lambda>img. if id' img = i then img\<lparr>cropState := cs\<rparr> else img) (images state)\<rparr>"
| "appReducer state (UPDATE_ALL_CROP_STATES a) =
     state\<lparr>images := map (\<lambda>img. img\<lparr>cropState := (cropState img)\<lparr>aspect := a\<rparr>\<rparr>) (images state)\<rparr>"
| "appReducer state (APPLY_CROP_TO_ALL payload) =
     state\<lparr>images :=
       map (\<lambda>img. img\<lparr>cropState :=
              payload\<lparr>aspect := targetWidth (exportSettings (settings state)) /
                                 targetHeight (exportSettings (settings state))\<rparr>\<rparr>)
         (images state)\<rparr>"
| "appReducer state (UPDATE_SETTINGS payload) =
     state\<lparr>settings := spreadAppSettings (settings state) payload\<rparr>"
| "appReducer state (UPDATE_EXPORT_SETTINGS payload) =
     state\<lparr>settings := (settings state)\<lparr>exportSettings :=
              spreadExportSettings (exportSettings (settings state)) payload\<rparr>\<rparr>"
| "appReducer state (SET_PROCESSING payload) = state\<lparr>appIsProcessing := payload\<rparr>"
| "appReducer state (SET_SELECTED_IMAGE payload) = state\<lparr>selectedImageId := payload\<rparr>"
| "appReducer state (SET_EDITING_IMAGE payload) = state\<lparr>editingImageId := payload\<rparr>"
| "appReducer state (SET_IMAGE_SMART_CROP i result) =
     state\<lparr>images :=
       map (\<lambda>img. if id' img = i then img\<lparr>smartCropResult := result, isSmartCropPending := False\<rparr>
                   else img) (images state)\<rparr>"
| "appReducer state (SET_IMAGE_PROCESSING i b) =
     state\<lparr>images := map (\<lambda>img. if id' img = i then img\<lparr>isProcessing := b\<rparr> else img) (images state)\<rparr>"
| "appReducer state (SET_IMAGE_SMART_CROP_PENDING i pending) =
     state\<lparr>images :=
       map (\<lambda>img. if id' img = i then img\<lparr>isSmartCropPending := pending\<rparr> else img) (images state)\<rparr>"
| "appReducer state (LOAD_STATE payload) = spreadAppState state payload"

text \<open>\<open>dispatch\<close> of a sequence of actions, in order.\<close>

definition dispatchAll :: "AppAction list \<Rightarrow> AppState \<Rightarrow> AppState" where
  "dispatchAll actions state = fold (\<lambda>a s. appReducer s a) actions state"

text \<open>
  \<open>runSmartCropForImage(id, imageOverride?)\<close>. \<open>closure\<close> is the \<open>state.settings\<close> the
  callback was created with, \<open>images state\<close> is \<open>imagesRef.current\<close> at the call. The function
  suspends once, at \<open>await analyzeImage\<close>; \<open>during\<close> are the actions other handlers dispatch
  while it is suspended. \<open>analyzeImage\<close> returns \<open>null\<close> for every failure of the detector and
  nothing else in the \<open>try\<close> block throws, so the \<open>catch\<close> branch has no path in the model.
\<close>

definition runSmartCropForImage ::
  "(ImageBitmap \<Rightarrow> real \<Rightarrow> real \<Rightarrow> Crop option) \<Rightarrow> (real \<Rightarrow> string) \<Rightarrow> AppSettings \<Rightarrow>
   string \<Rightarrow> ImageFile option \<Rightarrow> AppAction list \<Rightarrow> AppState \<times> Analyzer \<Rightarrow> AppState \<times> Analyzer" where
  "runSmartCropForImage detect str closure i imageOverride during sa =
     (let (state, an) = sa;
          found = (case imageOverride of
                     Some img \<Rightarrow> Some img
                   | None \<Rightarrow> find (\<lambda>img. id' img = i) (images state))
      in case found of
           None \<Rightarrow> (state, an)
         | Some img \<Rightarrow>
             (case bitmap img of
                None \<Rightarrow> (state, an)
              | Some bmp \<Rightarrow>
                  if \<not> enableSmartCrop closure then (state, an)
                  else
                    (let s1 = appReducer state (SET_IMAGE_SMART_CROP_PENDING i True);
                         tw = targetWidth (exportSettings closure);
                         th = targetHeight (exportSettings closure);
                         (result, an1) = analyzeImage detect str an bmp tw th i;
                         s2 = dispatchAll during s1
                     in case result of
                          None \<Rightarrow> (s2, an1)
                        | Some r \<Rightarrow>
                            (let s3 = appReducer s2 (SET_IMAGE_SMART_CROP i (Some r));
                                 newCropState =
                                   (smartCropToCropState r (originalWidth img)
                                      (originalHeight img) (tw / th))
                                   \<lparr>sourceHash := sourceHash (cropState img)\<rparr>
                             in (appReducer s3 (UPDATE_CROP_STATE i newCropState), an1)))))"

definition removeImage :: "string \<Rightarrow> AppState \<times> Analyzer \<Rightarrow> AppState \<times> Analyzer" where
  "removeImage i sa = (appReducer (fst sa) (REMOVE_IMAGE i), clearSmartCropCache (Some i) (snd sa))"

text \<open>\<open>clearImages\<close>; its third effect, \<open>clearStorage()\<close>, is on the persistent store only.\<close>

definition clearImages :: "AppState \<times> Analyzer \<Rightarrow> AppState \<times> Analyzer" where
  "clearImages sa = (appReducer (fst sa) CLEAR_IMAGES, clearSmartCropCache None (snd sa))"

section \<open>Export (lib/exportImages.ts, lib/imageUtils.ts)\<close>







section \<open>Notions used to state and prove the properties\<close>




section \<open>Concrete inputs\<close>

text \<open>
  A 1200 by 800 image with the default framing at aspect 3/2, a state holding some of them,
  a rendering of the numbers that occur in the examples, detectors and a rasterizer that fail
  on chosen images, and five analysis jobs.
\<close>

definition exampleImage :: "string \<Rightarrow> ImageBitmap option \<Rightarrow> ImageFile" where
  "exampleImage i b =
     \<lparr>id' = i, file' = File 0, name = i, originalWidth = 1200, originalHeight = 800,
      bitmap = b, thumbnail = [],
      cropState = DEFAULT_CROP_STATE\<lparr>aspect := 3 / 2, sourceHash := Some i\<rparr>,
      smartCropResult = None, isProcessing = False, isSmartCropPending = False\<rparr>"

definition exampleState :: "ImageFile list \<Rightarrow> AppState" where
  "exampleState imgs = initialState\<lparr>images := imgs\<rparr>"

definition selectedState :: AppState where
  "selectedState = (exampleState [exampleImage ''a'' None])
                     \<lparr>selectedImageId := Some ''a'', editingImageId := Some ''a''\<rparr>"

definition exampleStr :: "real \<Rightarrow> string" where
  "exampleStr v = (if v = 1200 then ''1200'' else if v = 800 then ''800''
                   else if v = 1 then ''1'' else if v = 2 then ''2''
                   else if v = 3 then ''3'' else ''0'')"

definition exampleCrop :: Crop where
  "exampleCrop = \<lparr>top_x = 100, top_y = 0, top_width = 600, top_height = 400, top_score = None\<rparr>"

definition emptyAnalyzer :: Analyzer where
  "emptyAnalyzer = \<lparr>cropCache = Map.empty, detectorCalls = 0\<rparr>"

definition failingDetect :: "ImageBitmap \<Rightarrow> real \<Rightarrow> real \<Rightarrow> Crop option" where
  "failingDetect bmp tw th = None"

definition workingDetect :: "ImageBitmap \<Rightarrow> real \<Rightarrow> real \<Rightarrow> Crop option" where
  "workingDetect bmp tw th = Some exampleCrop"

definition exampleDetect :: "ImageBitmap \<Rightarrow> real \<Rightarrow> real \<Rightarrow> Crop option" where
  "exampleDetect bmp tw th = (if bmp = ImageBitmap 3 then None else Some exampleCrop)"

definition exampleResult :: SmartCropResult where
  "exampleResult = \<lparr>res_x = 100, res_y = 0, res_width = 600, res_height = 400, score = 1\<rparr>"

definition exampleJob :: "string \<Rightarrow> nat \<Rightarrow> Job" where
  "exampleJob i b = \<lparr>imageId = i, job_bitmap = ImageBitmap b, job_targetWidth = 1200,
                      job_targetHeight = 800\<rparr>"



section \<open>Crop geometry: clamping\<close>

text \<open>
  C9. \<open>clampCropCenter\<close> is idempotent: clamping the clamped centre again, with the same crop
  and image dimensions, returns it unchanged. No relation between the crop and image
  dimensions is assumed, so the case of a crop larger than the image (where the lower limit
  exceeds the upper one, and the result is the lower limit) is included.
\<close>

theorem clampCropCenter_idempotent:
  "clampCropCenter (fst (clampCropCenter cX cY cropW cropH imageWidth imageHeight))
                   (snd (clampCropCenter cX cY cropW cropH imageWidth imageHeight))
                   cropW cropH imageWidth imageHeight
   = clampCropCenter cX cY cropW cropH imageWidth imageHeight"
  by (simp add: clampCropCenter_def Let_def max_def min_def)

section \<open>The collection state machine\<close>

lemma remove_image_keeps_pointers:
  "selectedImageId (appReducer state (REMOVE_IMAGE i)) = selectedImageId state"
  "editingImageId (appReducer state (REMOVE_IMAGE i)) = editingImageId state"
  by simp_all

lemma clear_images_clears_pointers:
  "selectedImageId (appReducer state CLEAR_IMAGES) = None"
  "editingImageId (appReducer state CLEAR_IMAGES) = None"
  "images (appReducer state CLEAR_IMAGES) = []"
  by simp_all

text \<open>
  C1. The claim: after \<open>REMOVE_IMAGE\<close> of the entry that \<open>selectedImageId\<close> or
  \<open>editingImageId\<close> names, that identity is cleared, as it is after \<open>CLEAR_IMAGES\<close>. The
  reducer's \<open>REMOVE_IMAGE\<close> case only filters \<open>images\<close>, and \<open>removeImage\<close> dispatches
  nothing else: on \<open>selectedState\<close>, whose single image \<open>a\<close> is both selected and edited,
  removing \<open>a\<close> leaves both identities naming \<open>a\<close> over an empty collection.
\<close>

theorem remove_image_leaves_dangling_identity:
  "appReducer selectedState (REMOVE_IMAGE ''a'')
     = selectedState\<lparr>images := []\<rparr> \<and>
   selectedImageId (appReducer selectedState (REMOVE_IMAGE ''a'')) = Some ''a'' \<and>
   editingImageId (appReducer selectedState (REMOVE_IMAGE ''a'')) = Some ''a'' \<and>
   fst (removeImage ''a'' (selectedState, emptyAnalyzer)) = selectedState\<lparr>images := []\<rparr>"
  by (simp add: selectedState_def exampleState_def exampleImage_def removeImage_def)

text \<open>
  C5. In a state with no image of identity \<open>i\<close>, the two transitions that commit an analysis
  for \<open>i\<close>, \<open>SET_IMAGE_SMART_CROP\<close> and \<open>UPDATE_CROP_STATE\<close>, return the state unchanged. The
  reducer is total: there is no error to raise.
\<close>

theorem late_result_discarded:
  assumes "\<forall>img \<in> set (images state). id' img \<noteq> i"
  shows "appReducer state (SET_IMAGE_SMART_CROP i result) = state \<and>
         appReducer state (UPDATE_CROP_STATE i cs) = state"
proof -
  have "map (\<lambda>img. if id' img = i then img\<lparr>smartCropResult := result, isSmartCropPending := False\<rparr>
                     else img) (images state) = images state"
    using assms by (intro map_idI) simp
  moreover have "map (\<lambda>img. if id' img = i then img\<lparr>cropState := cs\<rparr> else img) (images state)
                   = images state"
    using assms by (intro map_idI) simp
  ultimately show ?thesis by simp
qed

theorem late_result_discarded_witness:
  "''a'' \<notin> id' ` set (images (exampleState [exampleImage ''b'' None])) \<and>
   appReducer (exampleState [exampleImage ''b'' None]) (SET_IMAGE_SMART_CROP ''a'' None)
     = exampleState [exampleImage ''b'' None] \<and>
   appReducer (exampleState [exampleImage ''b'' None]) (UPDATE_CROP_STATE ''a'' DEFAULT_CROP_STATE)
     = exampleState [exampleImage ''b'' None]"
  using late_result_discarded[of "exampleState [exampleImage ''b'' None]" "''a''" None DEFAULT_CROP_STATE]
  by (simp add: exampleState_def exampleImage_def)

text \<open>
  C10. After \<open>APPLY_CROP_TO_ALL framing\<close> every entry's framing is \<open>framing\<close> with \<open>aspect\<close>
  replaced by the global \<open>targetWidth / targetHeight\<close>; in particular every entry's
  \<open>sourceHash\<close> is that of \<open>framing\<close>, not its own. The entries themselves, in order, stay.
\<close>

theorem apply_crop_to_all_overwrites:
  defines "globalAspect state \<equiv> targetWidth (exportSettings (settings state)) /
                                 targetHeight (exportSettings (settings state))"
  shows "(\<forall>img \<in> set (images (appReducer state (APPLY_CROP_TO_ALL framing))).
            cropState img = framing\<lparr>aspect := globalAspect state\<rparr> \<and>
            sourceHash (cropState img) = sourceHash framing) \<and>
         map id' (images (appReducer state (APPLY_CROP_TO_ALL framing))) = map id' (images state)"
  by (auto simp: globalAspect_def comp_def)

text \<open>Two images with fingerprints \<open>a\<close> and \<open>b\<close>; the framing of the first is applied to all.\<close>

theorem apply_crop_to_all_overwrites_witness:
  "map (\<lambda>img. sourceHash (cropState img))
       (images (appReducer (exampleState [exampleImage ''a'' None, exampleImage ''b'' None])
                 (APPLY_CROP_TO_ALL (cropState (exampleImage ''a'' None)))))
     = [Some ''a'', Some ''a''] \<and>
   map (\<lambda>img. sourceHash (cropState img))
       (images (exampleState [exampleImage ''a'' None, exampleImage ''b'' None]))
     = [Some ''a'', Some ''b'']"
  using apply_crop_to_all_overwrites[of "exampleState [exampleImage ''a'' None, exampleImage ''b'' None]"
          "cropState (exampleImage ''a'' None)"]
  by (simp add: exampleState_def exampleImage_def)

section \<open>The saliency cache\<close>

lemma analyzeImage_result_cached:
  assumes "analyzeImage detect str an bmp tw th i = (Some r, an1)"
  shows "cropCache an1 (getCacheKey str i tw th) = Some (Some r)"
  using assms
  by (auto simp: analyzeImage_def analyzeImage_start_def analyzeImage_resume_def Let_def
           split: option.splits)

lemma analyzeImage_hit:
  assumes "cropCache an (getCacheKey str i tw th) = Some v"
  shows "analyzeImage detect str an bmp tw th i = (v, an)"
  using assms by (simp add: analyzeImage_def analyzeImage_start_def analyzeImage_resume_def)

lemma analyzeImage_miss_calls:
  assumes "cropCache an (getCacheKey str i tw th) = None"
  shows "detectorCalls (snd (analyzeImage detect str an bmp tw th i)) = detectorCalls an + 1"
  using assms
  by (simp add: analyzeImage_def analyzeImage_start_def analyzeImage_resume_def Let_def
           split: option.splits)

lemma analyzeImage_failure:
  assumes "cropCache an (getCacheKey str i tw th) = None" "detect bmp tw th = None"
  shows "analyzeImage detect str an bmp tw th i = (None, an\<lparr>detectorCalls := detectorCalls an + 1\<rparr>)"
  using assms by (simp add: analyzeImage_def analyzeImage_start_def analyzeImage_resume_def)

text \<open>
  C4, as the claim states it, fails: a first call whose detector invocation fails returns
  \<open>null\<close> and leaves the cache empty, and the repeated call with the same key invokes the
  detector a second time and returns what it finds now.
\<close>

theorem analyzeImage_failure_not_cached:
  "analyzeImage failingDetect exampleStr emptyAnalyzer (ImageBitmap 1) 1200 800 ''a''
     = (None, emptyAnalyzer\<lparr>detectorCalls := 1\<rparr>) \<and>
   analyzeImage workingDetect exampleStr (emptyAnalyzer\<lparr>detectorCalls := 1\<rparr>)
          (ImageBitmap 1) 1200 800 ''a''
     = (Some exampleResult,
        \<lparr>cropCache = [''a_1200_800'' \<mapsto> Some exampleResult], detectorCalls = 2\<rparr>)"
  by (simp add: analyzeImage_def analyzeImage_start_def analyzeImage_resume_def emptyAnalyzer_def
        failingDetect_def workingDetect_def exampleCrop_def exampleResult_def getCacheKey_def
        exampleStr_def Let_def)

text \<open>
  C4, amended. If a call of \<open>analyzeImage\<close> returned a result \<open>r\<close>, a repeated call with the
  same identity and target dimensions returns \<open>r\<close> and leaves the analyzer as it was, the
  count of detector invocations included, whatever the detector would return now and
  whatever image is passed. If the key was not cached and the detector failed, the call
  returns \<open>null\<close>, the cache is unchanged, and the repeated call invokes the detector again.
\<close>

theorem analyzeImage_memoizes_results_only:
  "(analyzeImage detect str an bmp tw th i = (Some r, an1) \<longrightarrow>
      analyzeImage detect' str an1 bmp' tw th i = (Some r, an1)) \<and>
   (cropCache an (getCacheKey str i tw th) = None \<and> detect bmp tw th = None
      \<and> analyzeImage detect str an bmp tw th i = (r1, an1) \<longrightarrow>
      r1 = None \<and> cropCache an1 = cropCache an \<and>
      detectorCalls (snd (analyzeImage detect' str an1 bmp' tw th i)) = detectorCalls an1 + 1)"
proof (intro conjI impI)
  assume "analyzeImage detect str an bmp tw th i = (Some r, an1)"
  then show "analyzeImage detect' str an1 bmp' tw th i = (Some r, an1)"
    by (intro analyzeImage_hit analyzeImage_result_cached)
next
  assume a: "cropCache an (getCacheKey str i tw th) = None \<and> detect bmp tw th = None
      \<and> analyzeImage detect str an bmp tw th i = (r1, an1)"
  then have e: "r1 = None" "an1 = an\<lparr>detectorCalls := detectorCalls an + 1\<rparr>"
    using analyzeImage_failure[of an str i tw th detect bmp] by simp_all
  show "r1 = None" by (rule e)
  show "cropCache an1 = cropCache an" using e by simp
  have "cropCache an1 (getCacheKey str i tw th) = None" using e a by simp
  then show "detectorCalls (snd (analyzeImage detect' str an1 bmp' tw th i)) = detectorCalls an1 + 1"
    by (rule analyzeImage_miss_calls)
qed

text \<open>
  A successful first call followed by a call with a failing detector and another image, and
  a failing first call followed by a second call.
\<close>

theorem analyzeImage_memoizes_results_only_witness:
  "analyzeImage workingDetect exampleStr emptyAnalyzer (ImageBitmap 1) 1200 800 ''a''
     = (Some exampleResult,
        \<lparr>cropCache = [''a_1200_800'' \<mapsto> Some exampleResult], detectorCalls = 1\<rparr>) \<and>
   analyzeImage failingDetect exampleStr
        \<lparr>cropCache = [''a_1200_800'' \<mapsto> Some exampleResult], detectorCalls = 1\<rparr>
        (ImageBitmap 2) 1200 800 ''a''
     = (Some exampleResult,
        \<lparr>cropCache = [''a_1200_800'' \<mapsto> Some exampleResult], detectorCalls = 1\<rparr>) \<and>
   cropCache emptyAnalyzer (getCacheKey exampleStr ''a'' 1200 800) = None \<and>
   failingDetect (ImageBitmap 1) 1200 800 = None \<and>
   analyzeImage failingDetect exampleStr emptyAnalyzer (ImageBitmap 1) 1200 800 ''a''
     = (None, emptyAnalyzer\<lparr>detectorCalls := 1\<rparr>) \<and>
   detectorCalls (snd (analyzeImage failingDetect exampleStr (emptyAnalyzer\<lparr>detectorCalls := 1\<rparr>)
        (ImageBitmap 1) 1200 800 ''a'')) = 2"
  using analyzeImage_memoizes_results_only[of workingDetect exampleStr emptyAnalyzer
          "ImageBitmap 1" 1200 800 "''a''" exampleResult
          "\<lparr>cropCache = [''a_1200_800'' \<mapsto> Some exampleResult], detectorCalls = 1\<rparr>"
          failingDetect "ImageBitmap 2"]
        analyzeImage_memoizes_results_only[of failingDetect exampleStr emptyAnalyzer
          "ImageBitmap 1" 1200 800 "''a''" _ "emptyAnalyzer\<lparr>detectorCalls := 1\<rparr>"
          failingDetect "ImageBitmap 1" None]
  by (simp add: analyzeImage_def analyzeImage_start_def analyzeImage_resume_def emptyAnalyzer_def
        failingDetect_def workingDetect_def exampleCrop_def exampleResult_def getCacheKey_def
        exampleStr_def Let_def)

section \<open>Scheduling an analysis\<close>

lemma runSmartCropForImage_failure:
  assumes "find (\<lambda>img. id' img = i) (images state) = Some img" "bitmap img = Some bmp"
    and "enableSmartCrop closure"
    and "cropCache an (getCacheKey str i (targetWidth (exportSettings closure))
                          (targetHeight (exportSettings closure))) = None"
    and "detect bmp (targetWidth (exportSettings closure)) (targetHeight (exportSettings closure)) = None"
  shows "fst (runSmartCropForImage detect str closure i None [] (state, an))
           = appReducer state (SET_IMAGE_SMART_CROP_PENDING i True)"
  using assms by (simp add: runSmartCropForImage_def analyzeImage_failure dispatchAll_def)

text \<open>
  C2. The claim: when the scheduled job completes, with a result or with a failure, the
  image's \<open>isSmartCropPending\<close> is false. With a detector that fails, on a state holding the
  loaded image \<open>a\<close>, \<open>runSmartCropForImage\<close> sets the flag and never resets it: the only
  change to the state is \<open>isSmartCropPending = True\<close> (the framing is the one it had).
\<close>

theorem failed_analysis_stays_pending:
  "fst (runSmartCropForImage failingDetect exampleStr DEFAULT_APP_SETTINGS ''a'' None []
          (exampleState [exampleImage ''a'' (Some (ImageBitmap 1))], emptyAnalyzer))
   = exampleState [(exampleImage ''a'' (Some (ImageBitmap 1)))\<lparr>isSmartCropPending := True\<rparr>]"
  by (simp add: runSmartCropForImage_def exampleState_def exampleImage_def emptyAnalyzer_def
       analyzeImage_def analyzeImage_start_def analyzeImage_resume_def dispatchAll_def
       failingDetect_def DEFAULT_APP_SETTINGS_def DEFAULT_EXPORT_SETTINGS_def Let_def)

section \<open>The batch analyzer\<close>



















text \<open>
  Why the last clause asks that the failed job be the only one of the list for its image:
  two jobs for image \<open>a\<close> in one round, the detector failing on the first and succeeding on
  the second, leave the second job's result, not \<open>null\<close>, under \<open>a\<close>.
\<close>

lemma batchAnalyze_duplicate_image:
  "exampleDetect (job_bitmap (exampleJob ''a'' 3)) (job_targetWidth (exampleJob ''a'' 3))
     (job_targetHeight (exampleJob ''a'' 3)) = None \<and>
   (\<exists>res an'. batchAnalyze exampleDetect id exampleStr emptyAnalyzer
                  [exampleJob ''a'' 3, exampleJob ''a'' 1] 2
                = Some (res, [(1, 2), (2, 2)], an') \<and>
               res ''a'' = Some (Some exampleResult))"
proof -
  let ?jobs = "[exampleJob ''a'' 3, exampleJob ''a'' 1]"
  let ?bs0 = "\<lparr>results = Map.empty, completed = 0, progress = [], analyzer = emptyAnalyzer\<rparr>"
  let ?bs1 = "runBatch exampleDetect id exampleStr (length ?jobs) (slice ?jobs 0 (0 + 2)) ?bs0"
  have s: "slice ?jobs 0 (0 + 2) = ?jobs" by (simp add: slice_def)
  have "batchLoop exampleDetect id exampleStr ?jobs 2 (0 + 2) ?bs1 = Some ?bs1"
    by (subst batchLoop.simps) simp
  then have l: "batchLoop exampleDetect id exampleStr ?jobs 2 0 ?bs0 = Some ?bs1"
    by (subst batchLoop.simps) simp
  have p: "progress ?bs1 = [(1, 2), (2, 2)]"
    unfolding s
    by (simp add: runBatch_def finishJob_def analyzeImage_start_def analyzeImage_resume_def
          emptyAnalyzer_def exampleDetect_def exampleJob_def Let_def)
  have r: "results ?bs1 ''a'' = Some (Some exampleResult)"
    unfolding s
    by (simp add: runBatch_def finishJob_def analyzeImage_start_def analyzeImage_resume_def
          emptyAnalyzer_def exampleDetect_def exampleJob_def exampleCrop_def exampleResult_def Let_def)
  have "batchAnalyze exampleDetect id exampleStr emptyAnalyzer ?jobs 2
          = Some (results ?bs1, [(1, 2), (2, 2)], analyzer ?bs1)"
    using l p by (simp add: batchAnalyze_def)
  moreover have "exampleDetect (job_bitmap (exampleJob ''a'' 3)) (job_targetWidth (exampleJob ''a'' 3))
     (job_targetHeight (exampleJob ''a'' 3)) = None"
    by (simp add: exampleDetect_def exampleJob_def)
  ultimately show ?thesis using r by blast
qed

section \<open>Export\<close>









end
